theory Spec2Isabelle
  imports Complex_Main
begin

section \<open>Data model\<close>

subsection \<open>Enumerations of \<^verbatim>\<open>models/agent_models.py\<close>\<close>

text \<open>
  \<^verbatim>\<open>AgentType\<close>, \<^verbatim>\<open>TaskStatus\<close>, \<^verbatim>\<open>IntentType\<close> and \<^verbatim>\<open>Priority\<close> are Python enums.
  The first three derive from \<^verbatim>\<open>str\<close>: a member is the string that is its value, which
  the functions \<open>agent_type_value\<close>, \<open>task_status_value\<close> and \<open>intent_type_value\<close>
  give. The intent members \<^verbatim>\<open>TESTING\<close> and \<^verbatim>\<open>DOCUMENTATION\<close> carry a prime, since the
  agent types of the same names come first.
\<close>

datatype agent_type =
  CODE | INFRASTRUCTURE | TESTING | DEVOPS | DOCUMENTATION | SECURITY | PLANNING | REVIEW

datatype task_status = PENDING | IN_PROGRESS | COMPLETED | FAILED | CANCELLED

datatype intent_type =
  CODE_GENERATION | CODE_REVIEW | CODE_REFACTORING | INFRASTRUCTURE_SETUP | TESTING'
  | DEPLOYMENT | DOCUMENTATION' | DEBUGGING | SECURITY_SCAN | EXPLANATION | PROJECT_SETUP

datatype priority = LOW | MEDIUM | HIGH | CRITICAL

fun agent_type_value :: "agent_type \<Rightarrow> string" where
  "agent_type_value CODE = ''code''"
| "agent_type_value INFRASTRUCTURE = ''infrastructure''"
| "agent_type_value TESTING = ''testing''"
| "agent_type_value DEVOPS = ''devops''"
| "agent_type_value DOCUMENTATION = ''documentation''"
| "agent_type_value SECURITY = ''security''"
| "agent_type_value PLANNING = ''planning''"
| "agent_type_value REVIEW = ''review''"

fun task_status_value :: "task_status \<Rightarrow> string" where
  "task_status_value PENDING = ''pending''"
| "task_status_value IN_PROGRESS = ''in_progress''"
| "task_status_value COMPLETED = ''completed''"
| "task_status_value FAILED = ''failed''"
| "task_status_value CANCELLED = ''cancelled''"

fun intent_type_value :: "intent_type \<Rightarrow> string" where
  "intent_type_value CODE_GENERATION = ''code_generation''"
| "intent_type_value CODE_REVIEW = ''code_review''"
| "intent_type_value CODE_REFACTORING = ''refactoring''"
| "intent_type_value INFRASTRUCTURE_SETUP = ''infrastructure_setup''"
| "intent_type_value TESTING' = ''testing''"
| "intent_type_value DEPLOYMENT = ''deployment''"
| "intent_type_value DOCUMENTATION' = ''documentation''"
| "intent_type_value DEBUGGING = ''debugging''"
| "intent_type_value SECURITY_SCAN = ''security_scan''"
| "intent_type_value EXPLANATION = ''explanation''"
| "intent_type_value PROJECT_SETUP = ''project_setup''"

definition agent_type_values :: "string list" where
  "agent_type_values =
     map agent_type_value
       [CODE, INFRASTRUCTURE, TESTING, DEVOPS, DOCUMENTATION, SECURITY, PLANNING, REVIEW]"

definition task_status_values :: "string list" where
  "task_status_values =
     map task_status_value [PENDING, IN_PROGRESS, COMPLETED, FAILED, CANCELLED]"

subsection \<open>Exceptions\<close>

text \<open>
  A Python exception that \<^verbatim>\<open>except Exception\<close> catches is a value: its class name and
  the text \<^verbatim>\<open>str(e)\<close>. A computation that may raise returns \<open>exn + 'a\<close>, with \<open>Inl\<close>
  for the raised exception. \<^verbatim>\<open>KeyboardInterrupt\<close>, \<^verbatim>\<open>SystemExit\<close> and task cancellation
  are not instances of \<^verbatim>\<open>Exception\<close>; they are signals of the interpreter and of the
  event loop, not faults of a component, and are outside this model.
\<close>

datatype exn = PyException (exn_class: string) (str: string)

subsection \<open>Opaque payloads\<close>

datatype json =
  JNull | JBool bool | JNum real | JStr string | JList "json list"
  | JDict "(string \<times> json) list"

subsection \<open>\<^verbatim>\<open>ExecutionContext\<close>, \<^verbatim>\<open>TaskRequest\<close>, \<^verbatim>\<open>TaskResult\<close>\<close>

text \<open>
  Fields keep the names of the source. Where two classes have a field of the same name,
  the later record prefixes it (\<open>request_id\<close>, \<open>step_status\<close>, \<open>result_agent_type\<close>);
  \<open>context'\<close> is the field \<^verbatim>\<open>context\<close>. A \<^verbatim>\<open>float\<close> is a real number and a
  \<^verbatim>\<open>datetime\<close> is a real number of seconds: no property below depends on rounding.

  \<^verbatim>\<open>TaskRequest\<close> and \<^verbatim>\<open>TaskResult\<close> set \<^verbatim>\<open>use_enum_values=True\<close>: a validated enum
  field holds the member's value, a plain string. So \<open>intent\<close> and \<open>result_agent_type\<close>
  are strings here. The field \<^verbatim>\<open>status\<close> of a \<^verbatim>\<open>TaskResult\<close> is also assigned after
  construction, by \<^verbatim>\<open>mark_completed\<close> and \<^verbatim>\<open>mark_failed\<close>, which store the enum member
  itself (an assignment is not validated): a \<open>status_field\<close> is either. The fields
  \<^verbatim>\<open>created_at\<close> and \<^verbatim>\<open>metadata\<close> of the two classes are read by none of the functions
  below and are left out.

  A text that the program inspects (the user's input, a task's description) is a
  \<open>py_str\<close>: the list of the Unicode code points of the Python \<^verbatim>\<open>str\<close>. Identifiers and
  messages, which are only passed on, are strings.
\<close>

type_synonym py_str = "nat list"

definition code_points :: "string \<Rightarrow> py_str" where
  "code_points v = map of_char v"

datatype status_field = Plain string | Member task_status

text \<open>The string that a status compares equal to (\<^verbatim>\<open>TaskStatus\<close> derives from \<^verbatim>\<open>str\<close>).\<close>

fun status_text :: "status_field \<Rightarrow> string" where
  "status_text (Plain v) = v"
| "status_text (Member m) = task_status_value m"

record execution_context =
  session_id :: string
  user_id :: string
  project_id :: string
  workspace_path :: string
  environment :: string
  language :: "string option"
  framework :: "string option"
  metadata :: "(string \<times> json) list"

record task_request =
  request_id :: string
  intent :: string
  description :: py_str
  context' :: execution_context
  parameters :: "(string \<times> json) list"
  priority :: priority
  timeout :: int
  parent_task_id :: "string option"
  retry_count :: int
  max_retries :: int

record task_result =
  task_id :: string
  result_agent_type :: string
  status :: status_field
  result :: "(string \<times> json) list option"
  error :: "string option"
  execution_time :: real
  tokens_used :: int
  cost :: real
  confidence_score :: real
  completed_at :: "real option"

section \<open>Planning models (\<^verbatim>\<open>Complete-Data-Models-Implementation.py\<close>)\<close>

text \<open>
  \<^verbatim>\<open>ExecutionStep\<close> and \<^verbatim>\<open>ExecutionPlan\<close> are the same in
  \<^verbatim>\<open>Complete-Data-Models-Implementation.py\<close> and in
  \<^verbatim>\<open>Complete-Data-Models-pydantic-v2-Implementation.py\<close>.
\<close>

record execution_step =
  step_id :: string
  step_agent_type :: agent_type
  task :: task_request
  step_dependencies :: "string list"
  step_estimated_duration :: int
  step_status :: task_status
  step_retry_count :: int
  step_max_retries :: int

record execution_plan =
  plan_id :: string
  plan_original_task :: task_request
  steps :: "execution_step list"
  estimated_total_duration :: int
  plan_created_at :: real
  started_at :: "real option"
  plan_completed_at :: "real option"
  plan_status :: task_status

text \<open>
  \<^verbatim>\<open>
  def can_execute(self, completed_steps: set) -> bool:
      return all(dep_id in completed_steps for dep_id in self.dependencies)
  \<close>
\<close>

definition can_execute :: "execution_step \<Rightarrow> string set \<Rightarrow> bool" where
  "can_execute step completed_steps =
     list_all (\<lambda>dep_id. dep_id \<in> completed_steps) (step_dependencies step)"

text \<open>
  \<^verbatim>\<open>
  def get_ready_steps(self, completed_step_ids: set) -> List[ExecutionStep]:
      ready_steps = []
      for step in self.steps:
          if step.status == TaskStatus.PENDING and step.can_execute(completed_step_ids):
              ready_steps.append(step)
      return ready_steps
  \<close>
  The loop is \<open>ready_loop\<close>: the steps still to visit, and the list built so far.
\<close>

fun ready_loop ::
  "execution_step list \<Rightarrow> string set \<Rightarrow> execution_step list \<Rightarrow> execution_step list"
where
  "ready_loop [] completed_step_ids ready_steps = ready_steps"
| "ready_loop (step # rest) completed_step_ids ready_steps =
     (if step_status step = PENDING \<and> can_execute step completed_step_ids
      then ready_loop rest completed_step_ids (ready_steps @ [step])
      else ready_loop rest completed_step_ids ready_steps)"

definition get_ready_steps :: "execution_plan \<Rightarrow> string set \<Rightarrow> execution_step list" where
  "get_ready_steps plan completed_step_ids = ready_loop (steps plan) completed_step_ids []"

text \<open>
  \<^verbatim>\<open>
  def get_progress(self) -> float:
      if not self.steps:
          return 0.0
      completed = len([s for s in self.steps if s.status == TaskStatus.COMPLETED])
      return (completed / len(self.steps)) * 100.0
  \<close>
\<close>

definition get_progress :: "execution_plan \<Rightarrow> real" where
  "get_progress plan =
     (if steps plan = [] then 0
      else (let completed = length (filter (\<lambda>s. step_status s = COMPLETED) (steps plan))
            in (real completed / real (length (steps plan))) * 100))"

text \<open>Every step of the plan is Completed (true of a plan with no step).\<close>

definition all_completed :: "execution_plan \<Rightarrow> bool" where
  "all_completed plan = list_all (\<lambda>s. step_status s = COMPLETED) (steps plan)"

section \<open>Pydantic constructors (\<^verbatim>\<open>models/agent_models.py\<close>)\<close>

text \<open>
  Building a pydantic model validates every field and raises \<^verbatim>\<open>ValidationError\<close> when a
  field is refused. \<open>validation_error\<close> stands for that exception: the class name, and
  as its text the model and the refused fields (pydantic's own wording is longer; no
  property here reads it).
\<close>

fun join_fields :: "string list \<Rightarrow> string" where
  "join_fields [] = []"
| "join_fields [f] = f"
| "join_fields (f # g # fs) = f @ '', '' @ join_fields (g # fs)"

definition validation_error :: "string \<Rightarrow> string list \<Rightarrow> exn" where
  "validation_error model refused =
     PyException ''ValidationError''
       (''validation error for '' @ model @ '': '' @ join_fields refused)"

text \<open>
  \<^verbatim>\<open>str.strip()\<close> removes the white space at both ends. The white space of Python is
  the code points U+0009 to U+000D, U+001C to U+0020, U+0085, U+00A0, U+1680, U+2000 to
  U+200A, U+2028, U+2029, U+202F, U+205F and U+3000.
\<close>

definition is_space :: "nat \<Rightarrow> bool" where
  "is_space c =
     ((9 \<le> c \<and> c \<le> 13) \<or> (28 \<le> c \<and> c \<le> 32) \<or> c = 133 \<or> c = 160 \<or> c = 5760 \<or>
      (8192 \<le> c \<and> c \<le> 8202) \<or> c = 8232 \<or> c = 8233 \<or> c = 8239 \<or> c = 8287 \<or>
      c = 12288)"

definition strip :: "py_str \<Rightarrow> py_str" where
  "strip v = rev (dropWhile is_space (rev (dropWhile is_space v)))"

text \<open>
  The world outside the program: the values that successive calls of
  \<^verbatim>\<open>datetime.utcnow()\<close> and of \<^verbatim>\<open>str(uuid.uuid4())\<close> return, how many of each were made,
  and the calls of \<^verbatim>\<open>execute\<close> made on agents so far (agent type and task id), in order.
\<close>

record env =
  clock :: "nat \<Rightarrow> real"
  clock_reads :: nat
  uuids :: "nat \<Rightarrow> string"
  uuid_reads :: nat
  dispatches :: "(agent_type \<times> string) list"

definition utcnow :: "env \<Rightarrow> real \<times> env" where
  "utcnow s = (clock s (clock_reads s), s\<lparr>clock_reads := Suc (clock_reads s)\<rparr>)"

definition uuid4 :: "env \<Rightarrow> string \<times> env" where
  "uuid4 s = (uuids s (uuid_reads s), s\<lparr>uuid_reads := Suc (uuid_reads s)\<rparr>)"

text \<open>
  \<^verbatim>\<open>TaskRequest(intent=..., description=..., context=...)\<close>, the other fields at their
  defaults. \<^verbatim>\<open>validate_description\<close> refuses a description that is empty once stripped
  and stores the stripped text; the default timeout 300 passes \<^verbatim>\<open>validate_timeout\<close>.
\<close>

definition TaskRequest ::
  "intent_type \<Rightarrow> py_str \<Rightarrow> execution_context \<Rightarrow> env \<Rightarrow> (exn + task_request) \<times> env"
where
  "TaskRequest intent_arg description_arg context_arg s =
     (let (fresh, s1) = uuid4 s in
      if description_arg = [] \<or> strip description_arg = []
      then (Inl (validation_error ''TaskRequest'' [''description'']), s1)
      else (Inr \<lparr>request_id = fresh, intent = intent_type_value intent_arg,
                  description = strip description_arg, context' = context_arg,
                  parameters = [], priority = MEDIUM, timeout = 300, parent_task_id = None,
                  retry_count = 0, max_retries = 3\<rparr>, s1))"

text \<open>
  \<^verbatim>\<open>TaskResult(task_id=..., agent_type=..., status=..., result=..., error=...,
  execution_time=...)\<close>, the other fields at their defaults. The field \<^verbatim>\<open>agent_type\<close> is
  declared \<^verbatim>\<open>AgentType\<close> and \<^verbatim>\<open>status\<close> is declared \<^verbatim>\<open>TaskStatus\<close>: the argument must be
  a member of the enum, that is one of its values. \<^verbatim>\<open>validate_execution_time\<close> refuses a
  negative time. The status is stored as the plain value.
\<close>

definition TaskResult ::
  "string \<Rightarrow> string \<Rightarrow> string \<Rightarrow> (string \<times> json) list option \<Rightarrow> string option \<Rightarrow> real
     \<Rightarrow> exn + task_result"
where
  "TaskResult task_id_arg agent_type_arg status_arg result_arg error_arg execution_time_arg =
     (let refused =
            (if agent_type_arg \<in> set agent_type_values then [] else [''agent_type'']) @
            (if status_arg \<in> set task_status_values then [] else [''status'']) @
            (if execution_time_arg < 0 then [''execution_time''] else [])
      in if refused = []
         then Inr \<lparr>task_id = task_id_arg, result_agent_type = agent_type_arg,
                    status = Plain status_arg, result = result_arg, error = error_arg,
                    execution_time = execution_time_arg, tokens_used = 0, cost = 0,
                    confidence_score = 1, completed_at = None\<rparr>
         else Inl (validation_error ''TaskResult'' refused))"

text \<open>
  \<^verbatim>\<open>
  def mark_completed(self, result: Dict[str, Any] = None):
      self.status = TaskStatus.COMPLETED
      self.completed_at = datetime.utcnow()
      if result:
          self.result = result

  def mark_failed(self, error: str):
      self.status = TaskStatus.FAILED
      self.error = error
      self.completed_at = datetime.utcnow()
  \<close>
  \<^verbatim>\<open>if result\<close> holds of a dict that is not empty.
\<close>

definition mark_completed ::
  "task_result \<Rightarrow> (string \<times> json) list option \<Rightarrow> env \<Rightarrow> task_result \<times> env"
where
  "mark_completed r result_arg s =
     (let (now, s1) = utcnow s;
          r1 = r\<lparr>status := Member COMPLETED, completed_at := Some now\<rparr>
      in (case result_arg of
            Some (entry # entries) \<Rightarrow> (r1\<lparr>result := Some (entry # entries)\<rparr>, s1)
          | _ \<Rightarrow> (r1, s1)))"

definition mark_failed :: "task_result \<Rightarrow> string \<Rightarrow> env \<Rightarrow> task_result \<times> env" where
  "mark_failed r error_arg s =
     (let (now, s1) = utcnow s
      in (r\<lparr>status := Member FAILED, error := Some error_arg, completed_at := Some now\<rparr>, s1))"

section \<open>Agents and the registry (\<^verbatim>\<open>agents/base/agent.py\<close>, \<^verbatim>\<open>agent_registry.py\<close>)\<close>

text \<open>
  \<^verbatim>\<open>BaseAgent\<close>: its type, its capabilities and the two abstract coroutines. Either
  coroutine may raise.
\<close>

record agent =
  agent_type :: agent_type
  capabilities :: "string list"
  can_handle :: "task_request \<Rightarrow> exn + bool"
  execute :: "task_request \<Rightarrow> exn + task_result"

text \<open>
  A Python \<^verbatim>\<open>dict\<close> keeps its keys in the order of their first insertion:
  \<^verbatim>\<open>d[k] = v\<close> on a key that is present replaces the value where it stands, and on a new
  key appends the entry.
\<close>

fun dict_set :: "('k \<times> 'v) list \<Rightarrow> 'k \<Rightarrow> 'v \<Rightarrow> ('k \<times> 'v) list" where
  "dict_set [] k v = [(k, v)]"
| "dict_set ((k', v') # d) k v =
     (if k' = k then (k, v) # d else (k', v') # dict_set d k v)"

definition dict_values :: "('k \<times> 'v) list \<Rightarrow> 'v list" where
  "dict_values d = map snd d"

definition dict_keys :: "('k \<times> 'v) list \<Rightarrow> 'k list" where
  "dict_keys d = map fst d"

text \<open>\<^verbatim>\<open>AgentRegistry\<close>: \<^verbatim>\<open>self.agents: Dict[AgentType, 'BaseAgent'] = {}\<close>.\<close>

record agent_registry =
  agents :: "(agent_type \<times> agent) list"

definition AgentRegistry :: agent_registry where
  "AgentRegistry = \<lparr>agents = []\<rparr>"

text \<open>
  \<^verbatim>\<open>
  def register_agent(self, agent):
      self.agents[agent.agent_type] = agent
  \<close>
\<close>

definition register_agent :: "agent_registry \<Rightarrow> agent \<Rightarrow> agent_registry" where
  "register_agent registry a =
     registry\<lparr>agents := dict_set (agents registry) (agent_type a) a\<rparr>"

text \<open>\<^verbatim>\<open>return self.agents.get(agent_type)\<close>\<close>

definition get_agent :: "agent_registry \<Rightarrow> agent_type \<Rightarrow> agent option" where
  "get_agent registry t = map_of (agents registry) t"

text \<open>
  \<^verbatim>\<open>
  async def find_capable_agents(self, task: TaskRequest) -> List:
      capable_agents = []
      for agent in self.agents.values():
          if await agent.can_handle(task):
              capable_agents.append(agent)
      return capable_agents
  \<close>
  An exception of \<^verbatim>\<open>can_handle\<close> ends the loop and leaves the function.
\<close>

fun find_capable_loop :: "agent list \<Rightarrow> task_request \<Rightarrow> agent list \<Rightarrow> exn + agent list" where
  "find_capable_loop [] task_arg capable_agents = Inr capable_agents"
| "find_capable_loop (a # rest) task_arg capable_agents =
     (case can_handle a task_arg of
        Inl e \<Rightarrow> Inl e
      | Inr b \<Rightarrow>
          find_capable_loop rest task_arg
            (if b then capable_agents @ [a] else capable_agents))"

definition find_capable_agents :: "agent_registry \<Rightarrow> task_request \<Rightarrow> exn + agent list" where
  "find_capable_agents registry task_arg =
     find_capable_loop (dict_values (agents registry)) task_arg []"

text \<open>A sequence of \<^verbatim>\<open>register_agent\<close> calls on a new registry, first call first.\<close>

definition register_all :: "agent list \<Rightarrow> agent_registry" where
  "register_all registered = foldl register_agent AgentRegistry registered"

section \<open>Task planner (\<^verbatim>\<open>task_planner.py\<close>)\<close>

text \<open>
  The dataclass \<^verbatim>\<open>ExecutionPlan\<close> of \<^verbatim>\<open>task_planner.py\<close>; \<open>planner_plan_id\<close> is its field
  \<^verbatim>\<open>id\<close>, and \<open>dependencies\<close> is a \<^verbatim>\<open>Dict[str, List[str]]\<close>.
\<close>

record planner_execution_plan =
  planner_plan_id :: string
  original_task :: task_request
  subtasks :: "task_request list"
  dependencies :: "(string \<times> string list) list"
  estimated_duration :: int

text \<open>
  \<^verbatim>\<open>
  async def create_plan(self, task: TaskRequest) -> ExecutionPlan:
      return ExecutionPlan(id="plan-1", original_task=task, subtasks=[task],
                           dependencies={}, estimated_duration=60)
  \<close>
  The planner holds the registry and does not read it.
\<close>

definition create_plan :: "agent_registry \<Rightarrow> task_request \<Rightarrow> exn + planner_execution_plan" where
  "create_plan registry task_arg =
     Inr \<lparr>planner_plan_id = ''plan-1'', original_task = task_arg, subtasks = [task_arg],
          dependencies = [], estimated_duration = 60\<rparr>"

text \<open>
  The dependency relation of a plan: an edge from an id to each id that its entry of
  \<open>dependencies\<close> lists. A plan is cyclic when an id reaches itself along edges, and
  dangling when an edge has an end that is the id of no subtask.
\<close>

definition dependency_edges :: "planner_execution_plan \<Rightarrow> (string \<times> string) list" where
  "dependency_edges plan = concat (map (\<lambda>(a, ds). map (Pair a) ds) (dependencies plan))"

definition cyclic :: "planner_execution_plan \<Rightarrow> bool" where
  "cyclic plan =
     (\<exists>a \<in> set (map fst (dependency_edges plan)). (a, a) \<in> (set (dependency_edges plan))\<^sup>+)"

definition dangling :: "planner_execution_plan \<Rightarrow> bool" where
  "dangling plan =
     (\<exists>(a, b) \<in> set (dependency_edges plan).
        \<not> (a \<in> set (map request_id (subtasks plan)) \<and>
           b \<in> set (map request_id (subtasks plan))))"

section \<open>Execution engine (\<^verbatim>\<open>execution_engine.py\<close>)\<close>

text \<open>
  The body of the \<^verbatim>\<open>try\<close> of \<^verbatim>\<open>execute_task\<close>:
  \<^verbatim>\<open>
  capable_agents = await self.agent_registry.find_capable_agents(task)
  if not capable_agents:
      return TaskResult(task_id=task.id, agent_type="unknown",
                        status=TaskStatus.FAILED, error="No capable agents found")
  selected_agent = capable_agents[0]
  result = await selected_agent.execute(task)
  return result
  \<close>
  The call of \<^verbatim>\<open>execute\<close> is recorded in \<open>dispatches\<close>.
\<close>

definition execute_task_try ::
  "agent_registry \<Rightarrow> task_request \<Rightarrow> env \<Rightarrow> (exn + task_result) \<times> env"
where
  "execute_task_try registry task_arg s =
     (case find_capable_agents registry task_arg of
        Inl e \<Rightarrow> (Inl e, s)
      | Inr capable_agents \<Rightarrow>
          (case capable_agents of
             [] \<Rightarrow>
               (TaskResult (request_id task_arg) ''unknown'' (task_status_value FAILED) None
                  (Some ''No capable agents found'') 0, s)
           | selected_agent # _ \<Rightarrow>
               (execute selected_agent task_arg,
                s\<lparr>dispatches :=
                    dispatches s @ [(agent_type selected_agent, request_id task_arg)]\<rparr>)))"

text \<open>
  \<^verbatim>\<open>
  async def execute_task(self, task: TaskRequest) -> TaskResult:
      start_time = datetime.utcnow()
      try:
          ...
      except Exception as e:
          execution_time = (datetime.utcnow() - start_time).total_seconds()
          return TaskResult(task_id=task.id, agent_type="unknown",
                            status=TaskStatus.FAILED, error=str(e),
                            execution_time=execution_time)
  \<close>
  An exception of the constructor in the handler leaves \<^verbatim>\<open>execute_task\<close>.
\<close>

definition execute_task ::
  "agent_registry \<Rightarrow> task_request \<Rightarrow> env \<Rightarrow> (exn + task_result) \<times> env"
where
  "execute_task registry task_arg s =
     (let (start_time, s1) = utcnow s in
      case execute_task_try registry task_arg s1 of
        (Inr r, s2) \<Rightarrow> (Inr r, s2)
      | (Inl e, s2) \<Rightarrow>
          (let (now, s3) = utcnow s2;
               execution_time_arg = now - start_time
           in (TaskResult (request_id task_arg) ''unknown'' (task_status_value FAILED) None
                 (Some (str e)) execution_time_arg, s3)))"

text \<open>
  \<^verbatim>\<open>
  async def execute_plan(self, plan) -> List[TaskResult]:
      results = []
      for task in plan.subtasks:
          result = await self.execute_task(task)
          results.append(result)
      return results
  \<close>
\<close>

fun execute_plan_loop ::
  "agent_registry \<Rightarrow> task_request list \<Rightarrow> task_result list \<Rightarrow> env
     \<Rightarrow> (exn + task_result list) \<times> env"
where
  "execute_plan_loop registry [] results s = (Inr results, s)"
| "execute_plan_loop registry (task_arg # rest) results s =
     (case execute_task registry task_arg s of
        (Inl e, s1) \<Rightarrow> (Inl e, s1)
      | (Inr r, s1) \<Rightarrow> execute_plan_loop registry rest (results @ [r]) s1)"

definition execute_plan ::
  "agent_registry \<Rightarrow> planner_execution_plan \<Rightarrow> env \<Rightarrow> (exn + task_result list) \<times> env"
where
  "execute_plan registry plan s = execute_plan_loop registry (subtasks plan) [] s"

section \<open>Orchestrator (\<^verbatim>\<open>middleware.py\<close>)\<close>

text \<open>
  A response is a \<^verbatim>\<open>Dict[str, Any]\<close>: its entries in the order of the dict display, each
  value a string, a time stamp, a result payload or a list of task results.
\<close>

datatype response_value =
  RStr string | RTime real | RResult "(string \<times> json) list option"
  | RResults "task_result list"

type_synonym response = "(string \<times> response_value) list"

text \<open>
  \<^verbatim>\<open>AgenticMiddleware\<close> holds its components as attributes; \<^verbatim>\<open>process_request\<close> calls
  \<^verbatim>\<open>self.intent_classifier.classify\<close>, \<^verbatim>\<open>self.task_planner.create_plan\<close>,
  \<^verbatim>\<open>self.execution_engine.execute_plan\<close> and \<^verbatim>\<open>self.execution_engine.execute_task\<close>.
  Each is a coroutine that may raise.
\<close>

record agentic_middleware =
  classify :: "py_str \<Rightarrow> execution_context \<Rightarrow> exn + intent_type"
  planner_create_plan :: "task_request \<Rightarrow> exn + planner_execution_plan"
  engine_execute_plan :: "planner_execution_plan \<Rightarrow> env \<Rightarrow> (exn + task_result list) \<times> env"
  engine_execute_task :: "task_request \<Rightarrow> env \<Rightarrow> (exn + task_result) \<times> env"

text \<open>
  \<^verbatim>\<open>AgenticMiddleware.__init__\<close> builds the planner and the engine of this repository
  on one registry; the classifier is a strategy given from outside.
\<close>

definition AgenticMiddleware ::
  "(py_str \<Rightarrow> execution_context \<Rightarrow> exn + intent_type) \<Rightarrow> agent_registry \<Rightarrow> agentic_middleware"
where
  "AgenticMiddleware classifier registry =
     \<lparr>classify = classifier, planner_create_plan = create_plan registry,
      engine_execute_plan = execute_plan registry,
      engine_execute_task = execute_task registry\<rparr>"

text \<open>\<^verbatim>\<open>_needs_planning\<close>: \<^verbatim>\<open>return False\<close>.\<close>

definition needs_planning :: "task_request \<Rightarrow> bool" where
  "needs_planning task_arg = False"

text \<open>\<^verbatim>\<open>_aggregate_results\<close>: \<^verbatim>\<open>return {"status": "completed", "results": results}\<close>.\<close>

definition aggregate_results :: "task_result list \<Rightarrow> planner_execution_plan \<Rightarrow> response" where
  "aggregate_results results plan = [(''status'', RStr ''completed''), (''results'', RResults results)]"

text \<open>
  \<^verbatim>\<open>_format_single_result\<close>:
  \<^verbatim>\<open>return {"status": result.status.value, "result": result.result}\<close>.
  \<open>status_value\<close> is the attribute access \<^verbatim>\<open>.value\<close>: an enum member has this attribute,
  a plain string has not.
\<close>

fun status_value :: "status_field \<Rightarrow> exn + string" where
  "status_value (Member m) = Inr (task_status_value m)"
| "status_value (Plain v) =
     Inl (PyException ''AttributeError'' ''str object has no attribute value'')"

definition format_single_result :: "task_result \<Rightarrow> exn + response" where
  "format_single_result r =
     (case status_value (status r) of
        Inl e \<Rightarrow> Inl e
      | Inr v \<Rightarrow> Inr [(''status'', RStr v), (''result'', RResult (result r))])"

text \<open>
  The body of the \<^verbatim>\<open>try\<close> of \<^verbatim>\<open>process_request\<close>:
  \<^verbatim>\<open>
  intent = await self.intent_classifier.classify(user_input, context)
  task = TaskRequest(intent=intent, description=user_input, context=context)
  if await self._needs_planning(task):
      plan = await self.task_planner.create_plan(task)
      results = await self.execution_engine.execute_plan(plan)
      response = await self._aggregate_results(results, plan)
  else:
      result = await self.execution_engine.execute_task(task)
      response = await self._format_single_result(result)
  return response
  \<close>
  The calls of the logger change nothing that is modelled.
\<close>

definition process_request_try ::
  "agentic_middleware \<Rightarrow> py_str \<Rightarrow> execution_context \<Rightarrow> env \<Rightarrow> (exn + response) \<times> env"
where
  "process_request_try mw user_input context_arg s =
     (case classify mw user_input context_arg of
        Inl e \<Rightarrow> (Inl e, s)
      | Inr intent_arg \<Rightarrow>
          (case TaskRequest intent_arg user_input context_arg s of
             (Inl e, s1) \<Rightarrow> (Inl e, s1)
           | (Inr task_arg, s1) \<Rightarrow>
               if needs_planning task_arg
               then (case planner_create_plan mw task_arg of
                       Inl e \<Rightarrow> (Inl e, s1)
                     | Inr plan \<Rightarrow>
                         (case engine_execute_plan mw plan s1 of
                            (Inl e, s2) \<Rightarrow> (Inl e, s2)
                          | (Inr results, s2) \<Rightarrow> (Inr (aggregate_results results plan), s2)))
               else (case engine_execute_task mw task_arg s1 of
                       (Inl e, s2) \<Rightarrow> (Inl e, s2)
                     | (Inr r, s2) \<Rightarrow> (format_single_result r, s2))))"

text \<open>
  \<^verbatim>\<open>
  except Exception as e:
      return {"error": str(e), "status": "failed",
              "timestamp": datetime.utcnow().isoformat()}
  \<close>
\<close>

definition failed_response :: "exn \<Rightarrow> real \<Rightarrow> response" where
  "failed_response e now =
     [(''error'', RStr (str e)), (''status'', RStr ''failed''), (''timestamp'', RTime now)]"

definition process_request ::
  "agentic_middleware \<Rightarrow> py_str \<Rightarrow> execution_context \<Rightarrow> env \<Rightarrow> (exn + response) \<times> env"
where
  "process_request mw user_input context_arg s =
     (case process_request_try mw user_input context_arg s of
        (Inr resp, s1) \<Rightarrow> (Inr resp, s1)
      | (Inl e, s1) \<Rightarrow> (let (now, s2) = utcnow s1 in (Inr (failed_response e now), s2)))"

section \<open>Sample values\<close>

definition sample_context :: execution_context where
  "sample_context =
     \<lparr>session_id = ''test-session'', user_id = ''test-user'', project_id = ''test-project'',
      workspace_path = ''/tmp/test'', environment = ''development'', language = None,
      framework = None, metadata = []\<rparr>"

definition sample_task :: task_request where
  "sample_task =
     \<lparr>request_id = ''task-1'', intent = ''code_generation'',
      description = code_points ''Create a Python function'', context' = sample_context,
      parameters = [],
      priority = MEDIUM, timeout = 300, parent_task_id = None,
      retry_count = 0, max_retries = 3\<rparr>"

definition sample_step :: "string \<Rightarrow> string list \<Rightarrow> task_status \<Rightarrow> execution_step" where
  "sample_step i deps st =
     \<lparr>step_id = i, step_agent_type = CODE, task = sample_task, step_dependencies = deps,
      step_estimated_duration = 60, step_status = st, step_retry_count = 0,
      step_max_retries = 3\<rparr>"

definition sample_plan :: "execution_step list \<Rightarrow> execution_plan" where
  "sample_plan ss =
     \<lparr>plan_id = ''plan-a'', plan_original_task = sample_task, steps = ss,
      estimated_total_duration = 60, plan_created_at = 0, started_at = None,
      plan_completed_at = None, plan_status = PENDING\<rparr>"

definition sample_env :: env where
  "sample_env =
     \<lparr>clock = real, clock_reads = 0, uuids = (\<lambda>n. replicate (Suc n) CHR ''u''),
      uuid_reads = 0, dispatches = []\<rparr>"

text \<open>
  Sample agents. \<open>worker\<close> accepts every task and runs \<open>run\<close>. \<open>report\<close> is what
  \<^verbatim>\<open>CodeGenerationAgent.execute\<close> returns: a \<^verbatim>\<open>TaskResult\<close> of its own type, Completed, or
  Failed with the error text when its language model call raised. \<open>raise_error\<close> is an
  \<^verbatim>\<open>execute\<close> that raises.
\<close>

definition worker ::
  "agent_type \<Rightarrow> string list \<Rightarrow> (task_request \<Rightarrow> exn + task_result) \<Rightarrow> agent"
where
  "worker t caps run =
     \<lparr>agent_type = t, capabilities = caps, can_handle = (\<lambda>task_arg. Inr True),
      execute = run\<rparr>"

text \<open>
  \<^verbatim>\<open>CodeGenerationAgent\<close>: its \<^verbatim>\<open>can_handle\<close> is
  \<^verbatim>\<open>return task.intent == IntentType.CODE_GENERATION\<close>.
\<close>

definition code_generation_agent :: "(task_request \<Rightarrow> exn + task_result) \<Rightarrow> agent" where
  "code_generation_agent run =
     \<lparr>agent_type = CODE, capabilities = [''Generate Python code''],
      can_handle = (\<lambda>task_arg. Inr (intent task_arg = intent_type_value CODE_GENERATION)),
      execute = run\<rparr>"

definition report ::
  "agent_type \<Rightarrow> task_status \<Rightarrow> string option \<Rightarrow> task_request \<Rightarrow> exn + task_result"
where
  "report t st err task_arg =
     TaskResult (request_id task_arg) (agent_type_value t) (task_status_value st) None err 0"

text \<open>
  An \<^verbatim>\<open>execute\<close> that builds its result and then calls \<^verbatim>\<open>mark_completed\<close> on it, at
  the time \<open>now\<close>.
\<close>

definition report_marked ::
  "agent_type \<Rightarrow> (string \<times> json) list option \<Rightarrow> real \<Rightarrow> task_request \<Rightarrow> exn + task_result"
where
  "report_marked t result_arg now task_arg =
     (case TaskResult (request_id task_arg) (agent_type_value t) (task_status_value PENDING)
             None None 0 of
        Inl e \<Rightarrow> Inl e
      | Inr r \<Rightarrow>
          Inr (fst (mark_completed r result_arg
                 \<lparr>clock = (\<lambda>n. now), clock_reads = 0, uuids = (\<lambda>n. []), uuid_reads = 0,
                  dispatches = []\<rparr>)))"

definition raise_error :: "task_request \<Rightarrow> exn + task_result" where
  "raise_error task_arg = Inl (PyException ''RuntimeError'' ''boom'')"

definition sample_two_task_plan :: planner_execution_plan where
  "sample_two_task_plan =
     \<lparr>planner_plan_id = ''plan-1'', original_task = sample_task,
      subtasks = [sample_task, sample_task\<lparr>request_id := ''task-2''\<rparr>],
      dependencies = [], estimated_duration = 60\<rparr>"

section \<open>Properties of the planning models\<close>

lemma ready_loop_filter:
  "ready_loop ss c acc =
     acc @ filter (\<lambda>s. step_status s = PENDING \<and> can_execute s c) ss"
  by (induction ss arbitrary: acc) simp_all

lemma completed_count_full:
  "length (filter P xs) = length xs \<longleftrightarrow> list_all P xs"
proof (induction xs)
  case Nil
  then show ?case by simp
next
  case (Cons x xs)
  have le: "length (filter P xs) \<le> length xs" by (rule length_filter_le)
  show ?case
  proof (cases "P x")
    case True
    with Cons show ?thesis by simp
  next
    case False
    have "length (filter P xs) \<noteq> Suc (length xs)"
    proof
      assume eq: "length (filter P xs) = Suc (length xs)"
      from le have "Suc (length xs) \<le> length xs" unfolding eq .
      then show False by simp
    qed
    with False show ?thesis by simp
  qed
qed

text \<open>
  C2, as amended. The progress of a plan lies between 0 and 100. It is 100 exactly when
  the plan has at least one step and every step is Completed; a plan with no step has
  progress 0.
\<close>

theorem get_progress_bounds_and_full:
  "0 \<le> get_progress plan \<and> get_progress plan \<le> 100 \<and>
   (get_progress plan = 100 \<longleftrightarrow> steps plan \<noteq> [] \<and> all_completed plan) \<and>
   (steps plan = [] \<longrightarrow> get_progress plan = 0)"
proof (cases "steps plan = []")
  case True
  then show ?thesis by (simp add: get_progress_def)
next
  case False
  define n where "n = length (steps plan)"
  define c where "c = length (filter (\<lambda>s. step_status s = COMPLETED) (steps plan))"
  have n_pos: "0 < n" using False by (simp add: n_def)
  have c_le: "c \<le> n" unfolding c_def n_def by (rule length_filter_le)
  have gp: "get_progress plan = real c / real n * 100"
    using False by (simp add: get_progress_def c_def n_def)
  have lo: "0 \<le> real c / real n * 100" by simp
  have hi: "real c / real n * 100 \<le> 100" using c_le n_pos by (simp add: field_simps)
  have "real c / real n * 100 = 100 \<longleftrightarrow> c = n" using n_pos by (simp add: field_simps)
  also have "\<dots> \<longleftrightarrow> all_completed plan"
    unfolding c_def n_def all_completed_def by (rule completed_count_full)
  finally have full: "real c / real n * 100 = 100 \<longleftrightarrow> all_completed plan" .
  show ?thesis using gp lo hi full False by simp
qed

theorem get_progress_bounds_and_full_witness:
  "get_progress (sample_plan [sample_step ''s1'' [] COMPLETED]) = 100 \<and>
   get_progress (sample_plan [sample_step ''s1'' [] COMPLETED, sample_step ''s2'' [] PENDING])
     \<noteq> 100 \<and>
   steps (sample_plan []) = [] \<and> get_progress (sample_plan []) = 0"
  using get_progress_bounds_and_full [of "sample_plan [sample_step ''s1'' [] COMPLETED]"]
    get_progress_bounds_and_full
      [of "sample_plan [sample_step ''s1'' [] COMPLETED, sample_step ''s2'' [] PENDING]"]
    get_progress_bounds_and_full [of "sample_plan []"]
  by (simp add: all_completed_def sample_plan_def sample_step_def)

text \<open>
  C2, as stated, fails at the plan with no step: every step of it is Completed, and its
  progress is 0, not 100.
\<close>

theorem get_progress_empty_plan_counterexample:
  "all_completed (sample_plan []) \<and> get_progress (sample_plan []) = 0 \<and>
   get_progress (sample_plan []) \<noteq> 100"
  by (simp add: all_completed_def get_progress_def sample_plan_def)

text \<open>
  C3. A step is returned by \<open>get_ready_steps\<close> exactly when it is a step of the plan, its
  status is Pending and every one of its dependency ids is in the completed-id set; the
  ready steps come in the order of the plan.
\<close>

theorem get_ready_steps_iff:
  "(step \<in> set (get_ready_steps plan completed_step_ids) \<longleftrightarrow>
      step \<in> set (steps plan) \<and> step_status step = PENDING \<and>
      (\<forall>dep_id \<in> set (step_dependencies step). dep_id \<in> completed_step_ids)) \<and>
   get_ready_steps plan completed_step_ids =
     filter (\<lambda>s. step_status s = PENDING \<and> can_execute s completed_step_ids) (steps plan)"
  by (auto simp: get_ready_steps_def ready_loop_filter can_execute_def list_all_iff)

theorem get_ready_steps_iff_witness:
  "sample_step ''s2'' [''s1''] PENDING \<in>
     set (get_ready_steps
            (sample_plan [sample_step ''s1'' [] COMPLETED, sample_step ''s2'' [''s1''] PENDING,
                          sample_step ''s3'' [''s2''] PENDING])
            {''s1''}) \<and>
   sample_step ''s3'' [''s2''] PENDING \<notin>
     set (get_ready_steps
            (sample_plan [sample_step ''s1'' [] COMPLETED, sample_step ''s2'' [''s1''] PENDING,
                          sample_step ''s3'' [''s2''] PENDING])
            {''s1''})"
  using get_ready_steps_iff
      [of "sample_step ''s2'' [''s1''] PENDING"
          "sample_plan [sample_step ''s1'' [] COMPLETED, sample_step ''s2'' [''s1''] PENDING,
                        sample_step ''s3'' [''s2''] PENDING]"
          "{''s1''}"]
    get_ready_steps_iff
      [of "sample_step ''s3'' [''s2''] PENDING"
          "sample_plan [sample_step ''s1'' [] COMPLETED, sample_step ''s2'' [''s1''] PENDING,
                        sample_step ''s3'' [''s2''] PENDING]"
          "{''s1''}"]
  by (simp add: sample_plan_def sample_step_def can_execute_def)

section \<open>Properties of the registry\<close>

lemma map_of_dict_set: "map_of (dict_set d k v) = (map_of d)(k \<mapsto> v)"
  by (induction d k v rule: dict_set.induct) auto

lemma keys_dict_set:
  "map fst (dict_set d k v) = (if k \<in> set (map fst d) then map fst d else map fst d @ [k])"
  by (induction d k v rule: dict_set.induct) auto

lemma distinct_dict_set: "distinct (map fst d) \<Longrightarrow> distinct (map fst (dict_set d k v))"
  by (simp add: keys_dict_set)

lemma register_all_snoc: "register_all (rs @ [a]) = register_agent (register_all rs) a"
  by (simp add: register_all_def)

lemma get_agent_register_agent:
  "get_agent (register_agent registry a) t =
     (if t = agent_type a then Some a else get_agent registry t)"
  by (simp add: get_agent_def register_agent_def map_of_dict_set)

lemma get_agent_register_all:
  "get_agent (register_all rs) t = List.find (\<lambda>a. agent_type a = t) (rev rs)"
proof (induction rs rule: rev_induct)
  case Nil
  then show ?case by (simp add: register_all_def AgentRegistry_def get_agent_def)
next
  case (snoc a rs)
  then show ?case by (auto simp: register_all_snoc get_agent_register_agent)
qed

lemma keys_register_agent:
  "dict_keys (agents (register_agent registry a)) =
     (if agent_type a \<in> set (dict_keys (agents registry)) then dict_keys (agents registry)
      else dict_keys (agents registry) @ [agent_type a])"
  by (simp add: register_agent_def dict_keys_def keys_dict_set)

lemma keys_register_all:
  "dict_keys (agents (register_all rs)) = rev (remdups (rev (map agent_type rs)))"
proof (induction rs rule: rev_induct)
  case Nil
  then show ?case by (simp add: register_all_def AgentRegistry_def dict_keys_def)
next
  case (snoc a rs)
  then show ?case by (simp add: register_all_snoc keys_register_agent)
qed

lemma distinct_keys_register_all: "distinct (dict_keys (agents (register_all rs)))"
  by (simp add: keys_register_all)

lemma values_by_keys:
  "distinct (map fst d) \<Longrightarrow> map snd d = map (\<lambda>k. the (map_of d k)) (map fst d)"
proof (induction d)
  case Nil
  then show ?case by simp
next
  case (Cons p d)
  obtain k v where p: "p = (k, v)" by (cases p)
  from Cons.prems p have notin: "k \<notin> set (map fst d)" and dist: "distinct (map fst d)"
    by simp_all
  have "map (\<lambda>x. the (map_of (p # d) x)) (map fst d) = map (\<lambda>x. the (map_of d x)) (map fst d)"
  proof (rule map_cong[OF refl])
    fix x assume "x \<in> set (map fst d)"
    with notin have "x \<noteq> k" by blast
    then show "the (map_of (p # d) x) = the (map_of d x)" by (simp add: p)
  qed
  with Cons.IH[OF dist] show ?case by (simp add: p)
qed

lemma find_capable_loop_filter:
  "\<forall>a \<in> set xs. \<not> isl (can_handle a t) \<Longrightarrow>
   find_capable_loop xs t acc = Inr (acc @ filter (\<lambda>a. can_handle a t = Inr True) xs)"
proof (induction xs arbitrary: acc)
  case Nil
  then show ?case by simp
next
  case (Cons a xs)
  then obtain b where b: "can_handle a t = Inr b" by (cases "can_handle a t") auto
  with Cons show ?case by (cases b) auto
qed

lemma values_register_all:
  "dict_values (agents (register_all rs)) =
     map (\<lambda>t. the (List.find (\<lambda>a. agent_type a = t) (rev rs)))
       (rev (remdups (rev (map agent_type rs))))"
proof -
  have d: "distinct (map fst (agents (register_all rs)))"
    using distinct_keys_register_all[of rs] by (simp add: dict_keys_def)
  have "dict_values (agents (register_all rs)) =
          map (\<lambda>k. the (get_agent (register_all rs) k)) (dict_keys (agents (register_all rs)))"
    unfolding dict_values_def dict_keys_def get_agent_def by (rule values_by_keys[OF d])
  then show ?thesis by (simp add: get_agent_register_all keys_register_all)
qed

text \<open>
  C7, as amended. After any sequence of \<^verbatim>\<open>register_agent\<close> calls the registry holds, for
  each agent type, the agent registered last with that type and no other: a later
  registration of a type replaces the earlier agent. The types are distinct keys, and the
  agents the registry holds are, in the order in which their types were first registered,
  the last agent registered with each type.
\<close>

theorem register_agent_keeps_latest_of_type:
  "get_agent (register_all registered) t =
     List.find (\<lambda>a. agent_type a = t) (rev registered) \<and>
   distinct (dict_keys (agents (register_all registered))) \<and>
   dict_values (agents (register_all registered)) =
     map (\<lambda>t. the (List.find (\<lambda>a. agent_type a = t) (rev registered)))
       (rev (remdups (rev (map agent_type registered))))"
  using get_agent_register_all distinct_keys_register_all values_register_all by blast

text \<open>
  C7, as stated, fails: after registering two agents of type \<^verbatim>\<open>CODE\<close> the registry holds
  the second only, and only the second is a candidate for selection.
\<close>

theorem register_same_type_counterexample:
  "dict_values (agents (register_all
      [worker CODE [''v1''] raise_error, worker CODE [''v2''] raise_error])) =
     [worker CODE [''v2''] raise_error] \<and>
   worker CODE [''v1''] raise_error \<notin>
     set (dict_values (agents (register_all
       [worker CODE [''v1''] raise_error, worker CODE [''v2''] raise_error]))) \<and>
   find_capable_agents
     (register_all [worker CODE [''v1''] raise_error, worker CODE [''v2''] raise_error])
     sample_task = Inr [worker CODE [''v2''] raise_error]"
  by (simp add: register_all_def register_agent_def AgentRegistry_def dict_values_def
      worker_def find_capable_agents_def)

text \<open>
  C8, as amended. When no \<^verbatim>\<open>can_handle\<close> of a registered agent raises,
  \<^verbatim>\<open>find_capable_agents\<close> returns exactly the agents the registry holds whose
  \<^verbatim>\<open>can_handle\<close> returns true, in the order of the registry's dict, and the empty list
  when none does. That order is the order in which the agent types were first
  registered, each type standing for the agent registered last with it.
\<close>

theorem find_capable_agents_filter:
  "((\<forall>a \<in> set (dict_values (agents registry)). \<not> isl (can_handle a task_arg)) \<longrightarrow>
      find_capable_agents registry task_arg =
        Inr (filter (\<lambda>a. can_handle a task_arg = Inr True) (dict_values (agents registry)))) \<and>
   ((\<forall>a \<in> set (dict_values (agents registry)). can_handle a task_arg = Inr False) \<longrightarrow>
      find_capable_agents registry task_arg = Inr []) \<and>
   dict_values (agents (register_all registered)) =
     map (\<lambda>t. the (List.find (\<lambda>a. agent_type a = t) (rev registered)))
       (rev (remdups (rev (map agent_type registered))))"
proof (intro conjI impI)
  assume h: "\<forall>a \<in> set (dict_values (agents registry)). \<not> isl (can_handle a task_arg)"
  then show "find_capable_agents registry task_arg =
      Inr (filter (\<lambda>a. can_handle a task_arg = Inr True) (dict_values (agents registry)))"
    by (simp add: find_capable_agents_def find_capable_loop_filter)
next
  assume h: "\<forall>a \<in> set (dict_values (agents registry)). can_handle a task_arg = Inr False"
  then have "\<forall>a \<in> set (dict_values (agents registry)). \<not> isl (can_handle a task_arg)"
    by simp
  then have "find_capable_agents registry task_arg =
      Inr (filter (\<lambda>a. can_handle a task_arg = Inr True) (dict_values (agents registry)))"
    by (simp add: find_capable_agents_def find_capable_loop_filter)
  moreover have "filter (\<lambda>a. can_handle a task_arg = Inr True) (dict_values (agents registry)) = []"
    using h by (simp add: filter_empty_conv)
  ultimately show "find_capable_agents registry task_arg = Inr []" by simp
next
  show "dict_values (agents (register_all registered)) =
     map (\<lambda>t. the (List.find (\<lambda>a. agent_type a = t) (rev registered)))
       (rev (remdups (rev (map agent_type registered))))"
    by (rule values_register_all)
qed

text \<open>
  The agent of \<^verbatim>\<open>CodeGenerationAgent\<close>'s kind declines a testing task; a second agent takes
  it, and without that agent the list is empty.
\<close>

theorem find_capable_agents_filter_witness:
  "find_capable_agents
     (register_all [code_generation_agent raise_error, worker TESTING [''t''] raise_error])
     (sample_task\<lparr>intent := ''testing''\<rparr>) = Inr [worker TESTING [''t''] raise_error] \<and>
   find_capable_agents (register_all [code_generation_agent raise_error])
     (sample_task\<lparr>intent := ''testing''\<rparr>) = Inr []"
  using find_capable_agents_filter
      [of "register_all [code_generation_agent raise_error, worker TESTING [''t''] raise_error]"
          "sample_task\<lparr>intent := ''testing''\<rparr>" "[]"]
    find_capable_agents_filter
      [of "register_all [code_generation_agent raise_error]"
          "sample_task\<lparr>intent := ''testing''\<rparr>" "[]"]
  by (simp add: register_all_def register_agent_def AgentRegistry_def dict_values_def
      worker_def code_generation_agent_def sample_task_def)

text \<open>
  C8, as stated, fails: register a \<^verbatim>\<open>CODE\<close> agent, a \<^verbatim>\<open>TESTING\<close> agent and a second
  \<^verbatim>\<open>CODE\<close> agent, all accepting the task. The second \<^verbatim>\<open>CODE\<close> agent is returned before
  the \<^verbatim>\<open>TESTING\<close> agent, which was registered before it; and the result is not the list of
  the registered agents that accept the task.
\<close>

theorem find_capable_agents_order_counterexample:
  "find_capable_agents
     (register_all [worker CODE [''v1''] raise_error, worker TESTING [''t''] raise_error,
                    worker CODE [''v2''] raise_error])
     sample_task = Inr [worker CODE [''v2''] raise_error, worker TESTING [''t''] raise_error] \<and>
   [worker CODE [''v2''] raise_error, worker TESTING [''t''] raise_error] \<noteq>
     [worker TESTING [''t''] raise_error, worker CODE [''v2''] raise_error] \<and>
   [worker CODE [''v2''] raise_error, worker TESTING [''t''] raise_error] \<noteq>
     [worker CODE [''v1''] raise_error, worker TESTING [''t''] raise_error,
      worker CODE [''v2''] raise_error] \<and>
   can_handle (worker CODE [''v1''] raise_error) sample_task = Inr True \<and>
   can_handle (worker TESTING [''t''] raise_error) sample_task = Inr True \<and>
   can_handle (worker CODE [''v2''] raise_error) sample_task = Inr True"
  by (simp add: register_all_def register_agent_def AgentRegistry_def dict_values_def
      worker_def find_capable_agents_def)

section \<open>Properties of the execution engine\<close>

text \<open>
  \<^verbatim>\<open>"unknown"\<close> is no value of \<^verbatim>\<open>AgentType\<close>, so the constructor refuses every
  \<^verbatim>\<open>TaskResult\<close> that \<^verbatim>\<open>execute_task\<close> builds itself: \<^verbatim>\<open>execute_task\<close> returns a result
  only when the first capable agent returned it.
\<close>

lemma unknown_not_agent_type: "''unknown'' \<notin> set agent_type_values"
  by (simp add: agent_type_values_def)

lemma TaskResult_unknown_refused:
  "isl (TaskResult tid ''unknown'' st res err t)"
  by (simp add: TaskResult_def unknown_not_agent_type Let_def)

lemma execute_task_try_dispatches:
  "length (dispatches (snd (execute_task_try registry task_arg s))) \<le> Suc (length (dispatches s))"
  by (simp add: execute_task_try_def split: sum.splits list.splits)

lemma execute_task_try_Inr:
  "fst (execute_task_try registry task_arg s) = Inr r \<Longrightarrow>
   \<exists>a rest. find_capable_agents registry task_arg = Inr (a # rest) \<and> execute a task_arg = Inr r"
  using TaskResult_unknown_refused[of "request_id task_arg" "task_status_value FAILED" None
      "Some ''No capable agents found''" 0]
  by (auto simp: execute_task_try_def split: sum.splits list.splits)

lemma execute_task_Inr:
  "fst (execute_task registry task_arg s) = Inr r \<Longrightarrow>
   \<exists>a rest. find_capable_agents registry task_arg = Inr (a # rest) \<and> execute a task_arg = Inr r"
proof -
  assume h: "fst (execute_task registry task_arg s) = Inr r"
  obtain st s1 where u: "utcnow s = (st, s1)" by (cases "utcnow s")
  obtain o1 s2 where t: "execute_task_try registry task_arg s1 = (o1, s2)"
    by (cases "execute_task_try registry task_arg s1")
  show ?thesis
  proof (cases o1)
    case (Inl e)
    obtain now s3 where u2: "utcnow s2 = (now, s3)" by (cases "utcnow s2")
    have "isl (TaskResult (request_id task_arg) ''unknown'' (task_status_value FAILED) None
                 (Some (str e)) (now - st))"
      by (rule TaskResult_unknown_refused)
    with h u t Inl u2 show ?thesis by (simp add: execute_task_def)
  next
    case (Inr r')
    with h u t have "r' = r" by (simp add: execute_task_def)
    with t Inr have "fst (execute_task_try registry task_arg s1) = Inr r" by simp
    then show ?thesis by (rule execute_task_try_Inr)
  qed
qed

text \<open>
  C4, as amended. For every task, whatever its \<^verbatim>\<open>retry_count\<close> and \<^verbatim>\<open>max_retries\<close>, a
  call of \<^verbatim>\<open>execute_task\<close> makes at most one call of \<^verbatim>\<open>execute\<close>; when the first
  capable agent returns a result, Failed or not, \<^verbatim>\<open>execute_task\<close> returns that result as
  it is after this single call: a failure that the agent reports is final at once, and
  the task is not dispatched again.
\<close>

theorem execute_task_single_dispatch:
  "length (dispatches (snd (execute_task registry task_arg s))) \<le> Suc (length (dispatches s)) \<and>
   (\<forall>a rest r. find_capable_agents registry task_arg = Inr (a # rest) \<and>
        execute a task_arg = Inr r \<longrightarrow>
        execute_task registry task_arg s =
          (Inr r, s\<lparr>clock_reads := Suc (clock_reads s),
                    dispatches := dispatches s @ [(agent_type a, request_id task_arg)]\<rparr>))"
proof (intro conjI allI impI)
  obtain st s1 where u: "utcnow s = (st, s1)" by (cases "utcnow s")
  then have d1: "dispatches s1 = dispatches s" by (auto simp: utcnow_def)
  obtain o1 s2 where t: "execute_task_try registry task_arg s1 = (o1, s2)"
    by (cases "execute_task_try registry task_arg s1")
  have le: "length (dispatches s2) \<le> Suc (length (dispatches s))"
    using execute_task_try_dispatches[of registry task_arg s1] t d1 by simp
  show "length (dispatches (snd (execute_task registry task_arg s))) \<le> Suc (length (dispatches s))"
  proof (cases o1)
    case (Inl e)
    obtain now s3 where u2: "utcnow s2 = (now, s3)" by (cases "utcnow s2")
    then have "dispatches s3 = dispatches s2" by (auto simp: utcnow_def)
    with le u t Inl u2 show ?thesis by (simp add: execute_task_def)
  next
    case (Inr r')
    with le u t show ?thesis by (simp add: execute_task_def)
  qed
next
  fix a rest r
  assume "find_capable_agents registry task_arg = Inr (a # rest) \<and> execute a task_arg = Inr r"
  then show "execute_task registry task_arg s =
          (Inr r, s\<lparr>clock_reads := Suc (clock_reads s),
                    dispatches := dispatches s @ [(agent_type a, request_id task_arg)]\<rparr>)"
    by (simp add: execute_task_def execute_task_try_def utcnow_def)
qed

text \<open>An agent that reports a failure: one call, and its Failed result is returned.\<close>

theorem execute_task_single_dispatch_witness:
  "execute_task
     (register_all [worker CODE [] (report CODE FAILED (Some ''LLM unavailable''))])
     sample_task sample_env =
   (report CODE FAILED (Some ''LLM unavailable'') sample_task,
    sample_env\<lparr>clock_reads := 1, dispatches := [(CODE, ''task-1'')]\<rparr>)"
  using execute_task_single_dispatch
      [of "register_all [worker CODE [] (report CODE FAILED (Some ''LLM unavailable''))]"
          sample_task sample_env]
  by (simp add: register_all_def register_agent_def AgentRegistry_def dict_values_def
      worker_def find_capable_agents_def report_def TaskResult_def agent_type_values_def
      task_status_values_def sample_task_def sample_env_def)

text \<open>
  C4, as stated, fails: the agent reports a failure for a task with \<^verbatim>\<open>retry_count\<close> 0 and
  \<^verbatim>\<open>max_retries\<close> 3. The task is reported Failed at once, after one call of \<^verbatim>\<open>execute\<close>.
\<close>

theorem execute_task_retry_counterexample:
  "map_sum id status
     (fst (execute_task
        (register_all [worker CODE [] (report CODE FAILED (Some ''LLM unavailable''))])
        sample_task sample_env)) = Inr (Plain (task_status_value FAILED)) \<and>
   retry_count sample_task = 0 \<and> max_retries sample_task = 3 \<and>
   dispatches (snd (execute_task
        (register_all [worker CODE [] (report CODE FAILED (Some ''LLM unavailable''))])
        sample_task sample_env)) = [(CODE, request_id sample_task)]"
  by (simp add: register_all_def register_agent_def AgentRegistry_def dict_values_def
      worker_def find_capable_agents_def report_def TaskResult_def agent_type_values_def
      task_status_values_def sample_task_def sample_env_def execute_task_def
      execute_task_try_def utcnow_def)

text \<open>
  C5 at an empty registry. The claim: the engine fails the task with a result that
  carries the error message and an execution time of 0. The code: the constructor of
  that result raises in the \<^verbatim>\<open>try\<close>, the constructor in the handler raises again, and
  \<^verbatim>\<open>execute_task\<close> leaves with a \<^verbatim>\<open>ValidationError\<close>.
\<close>

theorem execute_task_no_agent_raises:
  "execute_task AgentRegistry sample_task sample_env =
     (Inl (validation_error ''TaskResult'' [''agent_type'']), sample_env\<lparr>clock_reads := 2\<rparr>) \<and>
   execute_task_try AgentRegistry sample_task sample_env =
     (Inl (validation_error ''TaskResult'' [''agent_type'']), sample_env)"
  by (simp add: AgentRegistry_def dict_values_def find_capable_agents_def TaskResult_def
      agent_type_values_def task_status_values_def sample_env_def execute_task_def
      execute_task_try_def utcnow_def)

text \<open>
  C9 at an agent whose \<^verbatim>\<open>execute\<close> raises. The claim: \<^verbatim>\<open>execute_task\<close> catches the
  exception and returns a Failed result. The code: the handler's constructor raises, and
  \<^verbatim>\<open>execute_task\<close> leaves with a \<^verbatim>\<open>ValidationError\<close>.
\<close>

theorem execute_task_worker_exception_raises:
  "fst (execute_task (register_all [worker CODE [] raise_error]) sample_task sample_env) =
     Inl (validation_error ''TaskResult'' [''agent_type'']) \<and>
   fst (execute_task_try (register_all [worker CODE [] raise_error]) sample_task sample_env) =
     Inl (PyException ''RuntimeError'' ''boom'')"
  by (simp add: register_all_def register_agent_def AgentRegistry_def dict_values_def
      worker_def raise_error_def find_capable_agents_def TaskResult_def
      agent_type_values_def task_status_values_def sample_env_def execute_task_def
      execute_task_try_def utcnow_def)

text \<open>When \<^verbatim>\<open>execute_plan\<close> does return, it returns one result for each subtask.\<close>

lemma execute_plan_loop_length:
  "fst (execute_plan_loop registry ts acc s) = Inr rs \<Longrightarrow> length rs = length acc + length ts"
proof (induction ts arbitrary: acc s)
  case Nil
  then show ?case by auto
next
  case (Cons t ts)
  then show ?case by (auto split: prod.splits sum.splits)
qed

text \<open>
  C10 at a plan of two subtasks and an empty registry. The claim: \<^verbatim>\<open>execute_plan\<close>
  returns two results. The code: the first \<^verbatim>\<open>execute_task\<close> raises and \<^verbatim>\<open>execute_plan\<close>
  leaves with that exception.
\<close>

theorem execute_plan_no_agent_raises:
  "length (subtasks sample_two_task_plan) = 2 \<and>
   fst (execute_plan AgentRegistry sample_two_task_plan sample_env) =
     Inl (validation_error ''TaskResult'' [''agent_type''])"
  by (simp add: AgentRegistry_def dict_values_def find_capable_agents_def TaskResult_def
      agent_type_values_def task_status_values_def sample_env_def execute_task_def
      execute_task_try_def utcnow_def execute_plan_def sample_two_task_plan_def)

section \<open>Properties of the planner\<close>

text \<open>
  For every request \<^verbatim>\<open>create_plan\<close> returns a plan: the request as its one subtask and
  an empty dependency map, which is neither cyclic nor dangling. The planner has no
  decomposition into several subtasks and refuses no request.
\<close>

lemma create_plan_single_step:
  "\<exists>plan. create_plan registry task_arg = Inr plan \<and> subtasks plan = [task_arg] \<and>
      dependencies plan = [] \<and> \<not> cyclic plan \<and> \<not> dangling plan"
  by (simp add: create_plan_def cyclic_def dangling_def dependency_edges_def)

section \<open>Properties of the orchestrator\<close>

lemma failed_response_entries:
  "map_of (failed_response e now) ''status'' = Some (RStr ''failed'') \<and>
   map_of (failed_response e now) ''error'' = Some (RStr (str e))"
  by (simp add: failed_response_def)

lemma format_single_result_status:
  "format_single_result r = Inr resp \<Longrightarrow> map_of resp ''status'' \<noteq> None"
  by (cases "status r") (auto simp: format_single_result_def)

lemma process_request_try_no_planning:
  "process_request_try mw user_input context_arg s =
     (case classify mw user_input context_arg of
        Inl e \<Rightarrow> (Inl e, s)
      | Inr intent_arg \<Rightarrow>
          (case TaskRequest intent_arg user_input context_arg s of
             (Inl e, s1) \<Rightarrow> (Inl e, s1)
           | (Inr task_arg, s1) \<Rightarrow>
               (case engine_execute_task mw task_arg s1 of
                  (Inl e, s2) \<Rightarrow> (Inl e, s2)
                | (Inr r, s2) \<Rightarrow> (format_single_result r, s2))))"
  by (simp add: process_request_try_def needs_planning_def split: sum.splits prod.splits)

lemma process_request_try_planner_unused:
  "process_request_try (mw\<lparr>planner_create_plan := p, engine_execute_plan := q\<rparr>)
     user_input context_arg s = process_request_try mw user_input context_arg s"
  by (simp add: process_request_try_no_planning split: sum.splits prod.splits)

lemma process_request_try_status:
  "process_request_try mw user_input context_arg s = (Inr resp, s1) \<Longrightarrow>
   map_of resp ''status'' \<noteq> None"
  by (auto simp: process_request_try_no_planning dest: format_single_result_status
      split: sum.splits prod.splits)

lemma process_request_cases:
  "process_request mw user_input context_arg s =
     (case process_request_try mw user_input context_arg s of
        (Inr resp, s1) \<Rightarrow> (Inr resp, s1)
      | (Inl e, s1) \<Rightarrow>
          (Inr (failed_response e (clock s1 (clock_reads s1))),
           s1\<lparr>clock_reads := Suc (clock_reads s1)\<rparr>))"
  by (simp add: process_request_def utcnow_def split: prod.splits sum.splits)

lemma process_request_planner_unused:
  "process_request (mw\<lparr>planner_create_plan := p, engine_execute_plan := q\<rparr>)
     user_input context_arg s = process_request mw user_input context_arg s"
  by (simp add: process_request_def process_request_try_planner_unused)

lemma process_request_returns:
  "\<exists>resp s'. process_request mw user_input context_arg s = (Inr resp, s') \<and>
       map_of resp ''status'' \<noteq> None"
proof -
  obtain out s1 where t: "process_request_try mw user_input context_arg s = (out, s1)"
    by (cases "process_request_try mw user_input context_arg s")
  show ?thesis
  proof (cases out)
    case (Inl e)
    with t show ?thesis by (simp add: process_request_cases failed_response_entries)
  next
    case (Inr resp)
    with t have "map_of resp ''status'' \<noteq> None" using process_request_try_status by simp
    with t Inr show ?thesis by (simp add: process_request_cases)
  qed
qed

text \<open>
  C1. For every middleware, input, context and state of the world, \<^verbatim>\<open>process_request\<close>
  returns a response and raises nothing, and the response has a \<^verbatim>\<open>status\<close> entry.
  When the classifier raises \<open>e\<close>, when the constructor of the request raises \<open>e\<close>,
  when the engine's \<^verbatim>\<open>execute_task\<close> raises \<open>e\<close> on the request built, or when the
  formatting of the engine's result raises \<open>e\<close>, the response is the Failed response of
  \<open>e\<close>, in which \<^verbatim>\<open>status\<close> is \<^verbatim>\<open>"failed"\<close> and \<^verbatim>\<open>error\<close> is \<^verbatim>\<open>str(e)\<close>; so it is for
  every exception that leaves the body of the \<^verbatim>\<open>try\<close>. When nothing raises, the
  response is the formatted result. The planner and \<^verbatim>\<open>execute_plan\<close> are never called
  (\<^verbatim>\<open>_needs_planning\<close> returns false): the outcome is the same whatever they are.
\<close>

theorem process_request_never_raises:
  "(\<exists>resp s'. process_request mw user_input context_arg s = (Inr resp, s') \<and>
       map_of resp ''status'' \<noteq> None) \<and>
   (\<forall>e. classify mw user_input context_arg = Inl e \<longrightarrow>
      fst (process_request mw user_input context_arg s) =
        Inr (failed_response e (clock s (clock_reads s)))) \<and>
   (\<forall>i e s1. classify mw user_input context_arg = Inr i \<and>
        TaskRequest i user_input context_arg s = (Inl e, s1) \<longrightarrow>
      fst (process_request mw user_input context_arg s) =
        Inr (failed_response e (clock s1 (clock_reads s1)))) \<and>
   (\<forall>i t s1 e s2. classify mw user_input context_arg = Inr i \<and>
        TaskRequest i user_input context_arg s = (Inr t, s1) \<and>
        engine_execute_task mw t s1 = (Inl e, s2) \<longrightarrow>
      fst (process_request mw user_input context_arg s) =
        Inr (failed_response e (clock s2 (clock_reads s2)))) \<and>
   (\<forall>i t s1 r s2 e. classify mw user_input context_arg = Inr i \<and>
        TaskRequest i user_input context_arg s = (Inr t, s1) \<and>
        engine_execute_task mw t s1 = (Inr r, s2) \<and> format_single_result r = Inl e \<longrightarrow>
      fst (process_request mw user_input context_arg s) =
        Inr (failed_response e (clock s2 (clock_reads s2)))) \<and>
   (\<forall>i t s1 r s2 resp. classify mw user_input context_arg = Inr i \<and>
        TaskRequest i user_input context_arg s = (Inr t, s1) \<and>
        engine_execute_task mw t s1 = (Inr r, s2) \<and> format_single_result r = Inr resp \<longrightarrow>
      fst (process_request mw user_input context_arg s) = Inr resp) \<and>
   (\<forall>e s1. process_request_try mw user_input context_arg s = (Inl e, s1) \<longrightarrow>
      fst (process_request mw user_input context_arg s) =
        Inr (failed_response e (clock s1 (clock_reads s1)))) \<and>
   (\<forall>e now. map_of (failed_response e now) ''status'' = Some (RStr ''failed'') \<and>
      map_of (failed_response e now) ''error'' = Some (RStr (str e))) \<and>
   (\<forall>p q. process_request (mw\<lparr>planner_create_plan := p, engine_execute_plan := q\<rparr>)
        user_input context_arg s = process_request mw user_input context_arg s)"
  apply (intro conjI)
  subgoal by (rule process_request_returns)
  subgoal by (auto simp: process_request_cases process_request_try_no_planning)
  subgoal by (auto simp: process_request_cases process_request_try_no_planning)
  subgoal by (auto simp: process_request_cases process_request_try_no_planning)
  subgoal by (auto simp: process_request_cases process_request_try_no_planning)
  subgoal by (auto simp: process_request_cases process_request_try_no_planning)
  subgoal by (auto simp: process_request_cases)
  subgoal by (simp add: failed_response_entries)
  subgoal by (simp add: process_request_planner_unused)
  done

text \<open>
  Five runs on the engine of this repository: the classifier raises; the description is
  white space only; no agent is registered and \<^verbatim>\<open>execute_task\<close> raises; the agent's result
  holds its status as a plain string and the formatting raises; the agent marked its
  result completed and the response is the formatted result.
\<close>

theorem process_request_never_raises_witness:
  "fst (process_request
         (AgenticMiddleware (\<lambda>u c. Inl (PyException ''RuntimeError'' ''classifier down''))
            AgentRegistry)
         (code_points ''write code for me'') sample_context sample_env) =
     Inr [(''error'', RStr ''classifier down''), (''status'', RStr ''failed''),
          (''timestamp'', RTime 0)] \<and>
   fst (process_request (AgenticMiddleware (\<lambda>u c. Inr CODE_GENERATION) AgentRegistry)
         [32, 160, 8195] sample_context sample_env) =
     Inr (failed_response (validation_error ''TaskRequest'' [''description'']) 0) \<and>
   fst (process_request (AgenticMiddleware (\<lambda>u c. Inr CODE_GENERATION) AgentRegistry)
         (code_points ''write code for me'') sample_context sample_env) =
     Inr (failed_response (validation_error ''TaskResult'' [''agent_type'']) 2) \<and>
   fst (process_request
         (AgenticMiddleware (\<lambda>u c. Inr CODE_GENERATION)
            (register_all [code_generation_agent (report CODE COMPLETED None)]))
         (code_points ''write code for me'') sample_context sample_env) =
     Inr (failed_response
            (PyException ''AttributeError'' ''str object has no attribute value'') 1) \<and>
   fst (process_request
         (AgenticMiddleware (\<lambda>u c. Inr CODE_GENERATION)
            (register_all
               [code_generation_agent
                  (report_marked CODE (Some [(''code'', JStr ''pass'')]) 5)]))
         (code_points ''write code for me'') sample_context sample_env) =
     Inr [(''status'', RStr ''completed''),
          (''result'', RResult (Some [(''code'', JStr ''pass'')]))]"
  using process_request_never_raises
      [of "AgenticMiddleware (\<lambda>u c. Inl (PyException ''RuntimeError'' ''classifier down''))
            AgentRegistry" "code_points ''write code for me''" sample_context sample_env]
    process_request_never_raises
      [of "AgenticMiddleware (\<lambda>u c. Inr CODE_GENERATION) AgentRegistry"
          "[32, 160, 8195]" sample_context sample_env]
    process_request_never_raises
      [of "AgenticMiddleware (\<lambda>u c. Inr CODE_GENERATION) AgentRegistry"
          "code_points ''write code for me''" sample_context sample_env]
    process_request_never_raises
      [of "AgenticMiddleware (\<lambda>u c. Inr CODE_GENERATION)
            (register_all [code_generation_agent (report CODE COMPLETED None)])"
          "code_points ''write code for me''" sample_context sample_env]
    process_request_never_raises
      [of "AgenticMiddleware (\<lambda>u c. Inr CODE_GENERATION)
            (register_all
               [code_generation_agent
                  (report_marked CODE (Some [(''code'', JStr ''pass'')]) 5)])"
          "code_points ''write code for me''" sample_context sample_env]
  by (simp add: process_request_def process_request_try_def AgenticMiddleware_def
      failed_response_def utcnow_def uuid4_def sample_env_def TaskRequest_def strip_def
      is_space_def needs_planning_def execute_task_def execute_task_try_def
      find_capable_agents_def AgentRegistry_def dict_values_def TaskResult_def
      agent_type_values_def task_status_values_def code_points_def
      register_all_def register_agent_def code_generation_agent_def report_def
      report_marked_def mark_completed_def format_single_result_def)

end
